theory Spec2Isabelle
  imports Complex_Main
begin

section \<open>Strings\<close>

text \<open>
  A JavaScript string is a sequence of UTF-16 code units. A code unit is modelled as a
  natural number (below 65536); \<open>js\<close> embeds an ASCII literal.
\<close>

type_synonym jsstring = "nat list"

definition js :: "string \<Rightarrow> jsstring" where
  "js s = map of_char s"

text \<open>
  \<open>String.prototype.trim\<close> removes leading and trailing WhiteSpace and LineTerminator
  code points: TAB, LF, VT, FF, CR, SP, NBSP, U+1680, U+2000..U+200A, U+2028, U+2029,
  U+202F, U+205F, U+3000 and U+FEFF.
\<close>

definition isWhiteSpace :: "nat \<Rightarrow> bool" where
  "isWhiteSpace c \<longleftrightarrow>
     c = 9 \<or> c = 10 \<or> c = 11 \<or> c = 12 \<or> c = 13 \<or> c = 32 \<or> c = 160 \<or> c = 5760 \<or>
     (8192 \<le> c \<and> c \<le> 8202) \<or> c = 8232 \<or> c = 8233 \<or> c = 8239 \<or> c = 8287 \<or>
     c = 12288 \<or> c = 65279"

definition trim :: "jsstring \<Rightarrow> jsstring" where
  "trim s = rev (dropWhile isWhiteSpace (rev (dropWhile isWhiteSpace s)))"

text \<open>Interpolation of a possibly missing string into a template literal.\<close>

definition interp :: "jsstring option \<Rightarrow> jsstring" where
  "interp v = (case v of None \<Rightarrow> js ''undefined'' | Some s \<Rightarrow> s)"

text \<open>\<open>a || b\<close> on a possibly missing string: the empty string is falsy as well.\<close>

definition orElse :: "jsstring option \<Rightarrow> jsstring \<Rightarrow> jsstring" where
  "orElse v d = (case v of None \<Rightarrow> d | Some s \<Rightarrow> if s = [] then d else s)"

text \<open>\<open>xs.join(sep)\<close>.\<close>

fun join :: "jsstring \<Rightarrow> jsstring list \<Rightarrow> jsstring" where
  "join sep [] = []"
| "join sep [x] = x"
| "join sep (x # y # ys) = x @ sep @ join sep (y # ys)"

section \<open>Numbers\<close>

text \<open>
  A JavaScript number is an IEEE 754 double. \<open>Fin r\<close> is the finite double of value \<open>r\<close>
  (\<open>Fin 0\<close> is the positive zero), \<open>NegZero\<close> the negative zero. Every operation computes
  the exact result and rounds it to the nearest double, ties to even, with gradual
  underflow and overflow to an infinity.
\<close>

datatype jsnum = Fin real | NegZero | PosInf | NegInf | NaN

text \<open>The number of binary digits of a natural number.\<close>

fun bitLength :: "nat \<Rightarrow> nat" where
  "bitLength n = (if n = 0 then 0 else Suc (bitLength (n div 2)))"

declare bitLength.simps [simp del]

text \<open>For a positive \<open>x\<close>, the integer \<open>k\<close> with \<open>2 ^ k \<le> x < 2 ^ (k + 1)\<close>.\<close>

definition floorLog2 :: "real \<Rightarrow> int" where
  "floorLog2 x =
     (if 1 \<le> x then int (bitLength (nat \<lfloor>x\<rfloor>)) - 1
      else - int (bitLength (nat (\<lceil>1 / x\<rceil> - 1))))"

definition pow2 :: "int \<Rightarrow> real" where
  "pow2 k = (if 0 \<le> k then 2 ^ nat k else 1 / 2 ^ nat (- k))"

definition roundHalfEven :: "real \<Rightarrow> int" where
  "roundHalfEven s =
     (let f = \<lfloor>s\<rfloor>; r = s - of_int f
      in if r < 1 / 2 then f else if 1 / 2 < r then f + 1 else if even f then f else f + 1)"

text \<open>
  Rounding of an exact value to a double: 53 significant binary digits, the least exponent
  of the last digit being -1074; a magnitude that rounds to \<open>2 ^ 1024\<close> or more is infinite.
  An exact zero is given its sign by the operation that produced it.
\<close>

definition roundDouble :: "real \<Rightarrow> jsnum" where
  "roundDouble x =
     (if x = 0 then Fin 0
      else
        let q = max (floorLog2 \<bar>x\<bar> - 52) (- 1074);
            m = roundHalfEven (\<bar>x\<bar> / pow2 q);
            y = of_int m * pow2 q
        in if pow2 1024 \<le> y then (if x < 0 then NegInf else PosInf)
           else if m = 0 then (if x < 0 then NegZero else Fin 0)
           else Fin (if x < 0 then - y else y))"

definition signedZero :: "bool \<Rightarrow> jsnum" where
  "signedZero negative = (if negative then NegZero else Fin 0)"

definition signedInf :: "bool \<Rightarrow> jsnum" where
  "signedInf negative = (if negative then NegInf else PosInf)"

fun isFinite :: "jsnum \<Rightarrow> bool" where
  "isFinite (Fin r) = True"
| "isFinite NegZero = True"
| "isFinite n = False"

fun signBit :: "jsnum \<Rightarrow> bool" where
  "signBit (Fin r) = (r < 0)"
| "signBit NegZero = True"
| "signBit NegInf = True"
| "signBit n = False"

text \<open>The value of a finite number.\<close>

fun val :: "jsnum \<Rightarrow> real" where
  "val (Fin r) = r"
| "val n = 0"

fun js_neg :: "jsnum \<Rightarrow> jsnum" where
  "js_neg (Fin r) = (if r = 0 then NegZero else Fin (- r))"
| "js_neg NegZero = Fin 0"
| "js_neg PosInf = NegInf"
| "js_neg NegInf = PosInf"
| "js_neg NaN = NaN"

text \<open>\<open>a + b\<close>: an exact sum of zero is the positive zero unless both operands are \<open>-0\<close>.\<close>

definition js_add :: "jsnum \<Rightarrow> jsnum \<Rightarrow> jsnum" where
  "js_add a b =
     (if a = NaN \<or> b = NaN then NaN
      else if isFinite a \<and> isFinite b then
        (if val a + val b = 0 then signedZero (a = NegZero \<and> b = NegZero)
         else roundDouble (val a + val b))
      else if isFinite b then a
      else if isFinite a then b
      else if a = b then a
      else NaN)"

text \<open>\<open>a - b\<close> is \<open>a + (-b)\<close>.\<close>

definition js_sub :: "jsnum \<Rightarrow> jsnum \<Rightarrow> jsnum" where
  "js_sub a b = js_add a (js_neg b)"

text \<open>\<open>a / b\<close>: the sign of the result is the exclusive or of the signs of the operands.\<close>

definition js_div :: "jsnum \<Rightarrow> jsnum \<Rightarrow> jsnum" where
  "js_div a b =
     (if a = NaN \<or> b = NaN then NaN
      else
        let negative = (signBit a \<noteq> signBit b)
        in if isFinite a \<and> isFinite b then
             (if val b = 0 then (if val a = 0 then NaN else signedInf negative)
              else if val a = 0 then signedZero negative
              else roundDouble (val a / val b))
           else if isFinite b then signedInf negative
           else if isFinite a then signedZero negative
           else NaN)"

text \<open>\<open>Math.ceil\<close>: a value in \<open>(-1, 0)\<close> gives the negative zero.\<close>

fun js_ceil :: "jsnum \<Rightarrow> jsnum" where
  "js_ceil (Fin r) = (if \<lceil>r\<rceil> = 0 \<and> r < 0 then NegZero else Fin (of_int \<lceil>r\<rceil>))"
| "js_ceil n = n"

text \<open>\<open>a > b\<close> and \<open>a == b\<close> on numbers: false whenever an operand is NaN; the zeros are equal.\<close>

definition js_gt :: "jsnum \<Rightarrow> jsnum \<Rightarrow> bool" where
  "js_gt a b =
     (if a = NaN \<or> b = NaN then False
      else if isFinite a \<and> isFinite b then val b < val a
      else if isFinite b then a = PosInf
      else if isFinite a then b = NegInf
      else a = PosInf \<and> b = NegInf)"

definition js_eq :: "jsnum \<Rightarrow> jsnum \<Rightarrow> bool" where
  "js_eq a b \<longleftrightarrow>
     a \<noteq> NaN \<and> b \<noteq> NaN \<and> (a = b \<or> (isFinite a \<and> isFinite b \<and> val a = val b))"

section \<open>Data model\<close>

text \<open>
  Values of JSON documents. Objects whose shape the program relies on are records below;
  an entry of \<open>legal_requirements\<close> is kept as a property map, because the program
  combines such entries with the object spread \<open>{ ...item, ...updatedItem }\<close>.
\<close>

datatype json = JNull | JBool bool | JNum jsnum | JStr jsstring | JArr "json list"
  | JObj "(jsstring \<times> json) list"

type_synonym jsobject = "jsstring \<rightharpoonup> json"

text \<open>Object spread: the properties of the second object override those of the first.\<close>

definition spread :: "jsobject \<Rightarrow> jsobject \<Rightarrow> jsobject" where
  "spread item updatedItem = item ++ updatedItem"

record VendorScript =
  context' :: jsstring
  script :: jsstring
  tone :: "jsstring option"

record MarketInsights =
  opportunities :: "jsstring list"
  seasonal_trends :: "jsstring list"
  underserved_niches :: "jsstring list"
  competitor_pricing :: jsstring
  rental_costs :: jsstring
  supply_chain_options :: "jsstring list"
  utility_costs :: jsstring
  govt_subsidies :: "jsstring list"

record MonthlyProjection =
  month :: jsnum
  revenue :: jsnum
  expense :: jsnum
  profit :: jsnum

record FinancialBreakdown =
  fixed_costs_monthly :: "jsstring list"
  variable_costs_per_unit :: jsstring
  profit_margin_per_unit :: jsstring
  break_even_analysis :: jsstring
  break_even_learn_more_url :: "jsstring option"
  financial_projections_year_1 :: "MonthlyProjection list"

record BudgetEstimate =
  min' :: jsnum
  max' :: jsnum
  currency :: jsstring

record BusinessPlanCore =
  products :: "jsstring list"
  target_customers :: jsstring
  timing :: jsstring

record BusinessPlan =
  idea_summary :: jsstring
  target_location :: jsstring
  budget_estimate :: BudgetEstimate
  business_plan :: BusinessPlanCore
  market_insights :: MarketInsights
  financial_breakdown :: FinancialBreakdown
  marketing_strategy :: "jsstring list"
  setup_checklist :: "jsstring list"
  legal_requirements :: "jsobject list"
  vendor_scripts :: "VendorScript list"
  estimated_daily_profit :: jsstring
  optimization_suggestions :: "jsstring list"

datatype role = User | Ai

datatype rating = Up | Down

record ChatMessage =
  role :: role
  text' :: jsstring
  feedback :: "rating option"

record AnalysisResult =
  is_sufficient :: bool
  clarification_question :: "jsstring option"
  search_query :: "jsstring option"
  identified_location :: "jsstring option"
  identified_business :: "jsstring option"
  detected_language :: "jsstring option"

section \<open>The generative backend\<close>

text \<open>
  Every call of \<open>ai.models.generateContent\<close> is a request; the fixed prose of a prompt is
  left out and the parts the program fills in are kept. A call either throws or returns a
  response whose \<open>text\<close> may be undefined. \<open>JSON.parse\<close> is a parameter of the model, one
  per result type (the source casts its result without validation); on an undefined text
  it throws.
\<close>

datatype error = BackendCallError | SyntaxError | TypeError

datatype request =
    AnalyzeIntent jsstring jsstring
  | Research jsstring
  | GeneratePlan jsstring jsstring "jsstring option" "jsstring option"
  | RefinePlan BusinessPlan "jsstring list" jsstring
  | VerifyRegulatoryDetail "json option" jsstring
  | OtherRequest jsstring

type_synonym response = "error + jsstring option"

type_synonym backend = "request \<Rightarrow> response"

type_synonym 'a parser = "jsstring \<Rightarrow> error + 'a"

definition jsonParse :: "'a parser \<Rightarrow> jsstring option \<Rightarrow> error + 'a" where
  "jsonParse p t = (case t of None \<Rightarrow> Inl SyntaxError | Some s \<Rightarrow> p s)"

section \<open>Hero: the conversation state machine\<close>

datatype processing = Idle | Analyzing | Researching | Generating

text \<open>
  The state of the \<open>Hero\<close> component that \<open>startAnalysis\<close> reads and writes
  (\<open>isListening\<close> and the two refs are not touched by it).
\<close>

record Hero =
  transcript :: jsstring
  language :: jsstring
  messages :: "ChatMessage list"
  processingState :: processing
  thinkingSteps :: "jsstring list"
  activeStepIndex :: nat

definition initialHero :: Hero where
  "initialHero = \<lparr>transcript = [], language = js ''auto'', messages = [],
     processingState = Idle, thinkingSteps = [], activeStepIndex = 0\<rparr>"

definition userMessage :: "jsstring \<Rightarrow> ChatMessage" where
  "userMessage t = \<lparr>role = User, text' = t, feedback = None\<rparr>"

definition aiMessage :: "jsstring \<Rightarrow> ChatMessage" where
  "aiMessage t = \<lparr>role = Ai, text' = t, feedback = None\<rparr>"

text \<open>\<open>newMessages.map(m => `${m.role.toUpperCase()}: ${m.text}`).join('\n')\<close>\<close>

definition roleUpper :: "role \<Rightarrow> jsstring" where
  "roleUpper r = (case r of User \<Rightarrow> js ''USER'' | Ai \<Rightarrow> js ''AI'')"

definition historyText :: "ChatMessage list \<Rightarrow> jsstring" where
  "historyText ms = join [10] (map (\<lambda>m. roleUpper (role m) @ js '': '' @ text' m) ms)"

definition failureText :: jsstring where
  "failureText = js ''I encountered an error analyzing that. Could you try again?''"

definition defaultClarification :: jsstring where
  "defaultClarification = js ''Could you provide more details about the location or idea?''"

text \<open>The \<open>catch\<close> block of \<open>startAnalysis\<close>.\<close>

definition onError :: "Hero \<Rightarrow> Hero" where
  "onError h = h\<lparr>processingState := Idle, messages := messages h @ [aiMessage failureText]\<rparr>"

text \<open>
  The synchronous head of \<open>startAnalysis\<close>, up to the first \<open>await\<close>: nothing when the
  transcript trims to the empty string, else the updated state and the analysis request.
\<close>

definition submit :: "Hero \<Rightarrow> (Hero \<times> request) option" where
  "submit h =
     (if trim (transcript h) = [] then None
      else
        let userText = transcript h;
            newMessages = messages h @ [userMessage userText]
        in Some (h\<lparr>transcript := [], messages := newMessages, processingState := Analyzing,
                   thinkingSteps := [js ''Reading context...'', js ''Identifying business idea...'',
                                     js ''Locating target area...''],
                   activeStepIndex := 0\<rparr>,
                 AnalyzeIntent (historyText newMessages) (language h)))"

text \<open>The five numbered lines of the synthesized research query.\<close>

definition researchTopics :: "jsstring \<Rightarrow> jsstring \<Rightarrow> jsstring list" where
  "researchTopics b l =
     [js ''1. Exact government permits fees and process (FSSAI, Trade license) for '' @ b
        @ js '' in '' @ l @ js ''.'',
      js ''2. Real estate rental listings for commercial shop in '' @ l @ js '' price.'',
      js ''3. Wholesale rates for raw materials for '' @ b @ js '' in '' @ l @ js ''.'',
      js ''4. Competitor menu pricing.'',
      js ''5. Specific government schemes for street vendors or small business in '' @ l
        @ js ''.'']"

text \<open>
  The template literal: a line break, then each line indented by eight spaces and ended by
  a line break, then six spaces.
\<close>

definition synthesizedQuery :: "jsstring \<Rightarrow> jsstring \<Rightarrow> jsstring" where
  "synthesizedQuery b l =
     [10] @ concat (map (\<lambda>line. replicate 8 32 @ line @ [10])
                      ([js ''Start '' @ b @ js '' in '' @ l @ js '' India guide.'', js ''Find:'']
                       @ researchTopics b l))
     @ replicate 6 32"

definition researchQuery :: "AnalysisResult \<Rightarrow> jsstring" where
  "researchQuery analysis =
     orElse (search_query analysis)
       (synthesizedQuery (interp (identified_business analysis))
          (interp (identified_location analysis)))"

text \<open>
  The continuation after the analysis response: on a sufficient analysis the state moves
  to \<open>Researching\<close> and the analysis is handed on; otherwise the run ends here.
\<close>

definition onAnalysisResponse ::
  "AnalysisResult parser \<Rightarrow> response \<Rightarrow> Hero \<Rightarrow> Hero \<times> AnalysisResult option" where
  "onAnalysisResponse parseAnalysis resp h =
     (case resp of
        Inl e \<Rightarrow> (onError h, None)
      | Inr t \<Rightarrow>
          (case jsonParse parseAnalysis t of
             Inl e \<Rightarrow> (onError h, None)
           | Inr analysis \<Rightarrow>
               if \<not> is_sufficient analysis then
                 (h\<lparr>processingState := Idle,
                    messages := messages h @
                      [aiMessage (orElse (clarification_question analysis) defaultClarification)]\<rparr>,
                  None)
               else
                 (h\<lparr>processingState := Researching,
                    thinkingSteps :=
                      [js ''Target Identified: '' @ interp (identified_business analysis)
                         @ js '' in '' @ interp (identified_location analysis),
                       js ''Running Search: '' @ [34] @ take 60 (researchQuery analysis)
                         @ js ''...'' @ [34],
                       js ''Analyzing real-time market data...''],
                    activeStepIndex := 1\<rparr>,
                  Some analysis)))"

definition onResearchResponse :: "response \<Rightarrow> Hero \<Rightarrow> Hero \<times> jsstring option option" where
  "onResearchResponse resp h =
     (case resp of
        Inl e \<Rightarrow> (onError h, None)
      | Inr researchContext \<Rightarrow>
          (h\<lparr>processingState := Generating,
             thinkingSteps := [js ''Research complete.'', js ''Synthesizing 50+ data points...'',
                               js ''Calculating financial projections...'',
                               js ''Drafting final consultant report...''],
             activeStepIndex := 2\<rparr>,
           Some researchContext))"

text \<open>
  The continuation after the plan response: the parsed plan is what \<open>onPlanGenerated\<close>
  is called with; the component's own state is not written on success.
\<close>

definition onPlanResponse ::
  "BusinessPlan parser \<Rightarrow> response \<Rightarrow> Hero \<Rightarrow> Hero \<times> BusinessPlan option" where
  "onPlanResponse parsePlan resp h =
     (case resp of
        Inl e \<Rightarrow> (onError h, None)
      | Inr t \<Rightarrow>
          (case jsonParse parsePlan t of
             Inl e \<Rightarrow> (onError h, None)
           | Inr plan \<Rightarrow> (h, Some plan)))"

text \<open>
  One whole run of \<open>startAnalysis\<close> against a backend: the final state, the requests
  issued in order, and the plan passed to \<open>onPlanGenerated\<close> if it was called.
\<close>

record outcome =
  hero :: Hero
  calls :: "request list"
  delivered :: "BusinessPlan option"

definition startAnalysis ::
  "backend \<Rightarrow> AnalysisResult parser \<Rightarrow> BusinessPlan parser \<Rightarrow> Hero \<Rightarrow> outcome" where
  "startAnalysis ai parseAnalysis parsePlan h =
     (case submit h of
        None \<Rightarrow> \<lparr>hero = h, calls = [], delivered = None\<rparr>
      | Some (h1, r1) \<Rightarrow>
          (case onAnalysisResponse parseAnalysis (ai r1) h1 of
             (h2, None) \<Rightarrow> \<lparr>hero = h2, calls = [r1], delivered = None\<rparr>
           | (h2, Some analysis) \<Rightarrow>
               let r2 = Research (researchQuery analysis) in
               (case onResearchResponse (ai r2) h2 of
                  (h3, None) \<Rightarrow> \<lparr>hero = h3, calls = [r1, r2], delivered = None\<rparr>
                | (h3, Some researchContext) \<Rightarrow>
                    let r3 = GeneratePlan (historyText (messages h1)) (language h)
                               researchContext (identified_location analysis)
                    in (case onPlanResponse parsePlan (ai r3) h3 of
                          (h4, d) \<Rightarrow> \<lparr>hero = h4, calls = [r1, r2, r3], delivered = d\<rparr>))))"

section \<open>PlanDashboard: financial derivation\<close>

text \<open>
  \<open>parseCurrency\<close>: \<open>str.match(/[\d,.]+/)\<close> finds the leftmost position where a digit, a
  comma or a full stop stands and takes the longest run of such characters from there.
\<close>

definition isDigit :: "nat \<Rightarrow> bool" where
  "isDigit c \<longleftrightarrow> 48 \<le> c \<and> c \<le> 57"

definition isNumChar :: "nat \<Rightarrow> bool" where
  "isNumChar c \<longleftrightarrow> isDigit c \<or> c = 44 \<or> c = 46"

fun matchNumRun :: "jsstring \<Rightarrow> jsstring option" where
  "matchNumRun [] = None"
| "matchNumRun (c # cs) =
     (if isNumChar c then Some (c # takeWhile isNumChar cs) else matchNumRun cs)"

text \<open>\<open>.replace(/,/g, '')\<close>\<close>

definition removeCommas :: "jsstring \<Rightarrow> jsstring" where
  "removeCommas s = filter (\<lambda>c. c \<noteq> 44) s"

definition digitsValue :: "jsstring \<Rightarrow> real" where
  "digitsValue ds = foldl (\<lambda>acc c. 10 * acc + of_nat (c - 48)) 0 ds"

text \<open>
  \<open>parseFloat\<close> on the strings that reach it here, which hold digits and full stops only:
  the longest prefix that is a decimal literal (digits, optionally a full stop and more
  digits; or a full stop and digits) is converted to the nearest double, and there being
  none gives NaN.
\<close>

definition parseFloat :: "jsstring \<Rightarrow> jsnum" where
  "parseFloat s =
     (let ip = takeWhile isDigit s; rest = dropWhile isDigit s
      in case rest of
           c # r \<Rightarrow>
             if c = 46 then
               (let fp = takeWhile isDigit r
                in if ip = [] \<and> fp = [] then NaN
                   else roundDouble (digitsValue ip + digitsValue fp / 10 ^ length fp))
             else if ip = [] then NaN else roundDouble (digitsValue ip)
         | [] \<Rightarrow> if ip = [] then NaN else roundDouble (digitsValue ip))"

definition parseCurrency :: "jsstring \<Rightarrow> jsnum" where
  "parseCurrency str =
     (if str = [] then Fin 0
      else case matchNumRun str of
             Some m \<Rightarrow> parseFloat (removeCommas m)
           | None \<Rightarrow> Fin 0)"

text \<open>\<open>Math.ceil(customFixedCost / (customPrice - customVariableCost))\<close>\<close>

definition breakEvenUnits :: "jsnum \<Rightarrow> jsnum \<Rightarrow> jsnum \<Rightarrow> jsnum" where
  "breakEvenUnits customPrice customVariableCost customFixedCost =
     js_ceil (js_div customFixedCost (js_sub customPrice customVariableCost))"



section \<open>PlanDashboard: refinement and field verification\<close>

text \<open>
  The state of the \<open>PlanDashboard\<close> component that the handlers below read and write.
  \<open>feedbackTimers\<close> counts the timers set to open the feedback dialogue.
\<close>

record Dashboard =
  currentPlan :: BusinessPlan
  chatHistory :: "ChatMessage list"
  chatInput :: jsstring
  isRefining :: bool
  chatFocusMode :: bool
  verifyingLegal :: "nat option"
  customPrice :: jsnum
  customVariableCost :: jsnum
  customFixedCost :: jsnum
  feedbackTimers :: nat

text \<open>The state after mounting with a plan and running the mount effect.\<close>

definition mountDashboard :: "BusinessPlan \<Rightarrow> Dashboard" where
  "mountDashboard plan =
     (let variable = parseCurrency (variable_costs_per_unit (financial_breakdown plan));
          margin = parseCurrency (profit_margin_per_unit (financial_breakdown plan));
          fixed = foldl (\<lambda>acc str. js_add acc (parseCurrency str)) (Fin 0)
                    (fixed_costs_monthly (financial_breakdown plan))
      in \<lparr>currentPlan = plan, chatHistory = [], chatInput = [], isRefining = False,
           chatFocusMode = False, verifyingLegal = None,
           customPrice = js_add variable margin, customVariableCost = variable,
           customFixedCost = fixed, feedbackTimers = 1\<rparr>)"

definition refineFailedText :: jsstring where
  "refineFailedText = js ''Sorry, I couldn'' @ [39] @ js ''t process that update. Try again.''"

definition refineConfirmText :: jsstring where
  "refineConfirmText = js ''Plan updated. Please review the dashboard.''"

definition refineRatingText :: jsstring where
  "refineRatingText = js ''How does this look?''"

text \<open>
  The continuation of \<open>handleRefine\<close> after the backend call, applied to the state at that
  moment: the \<open>try\<close> body with its guard \<open>if (jsonText)\<close>, the \<open>catch\<close> and the
  \<open>finally\<close>.
\<close>

definition onRefineResponse :: "BusinessPlan parser \<Rightarrow> response \<Rightarrow> Dashboard \<Rightarrow> Dashboard" where
  "onRefineResponse parsePlan resp prev =
     (let failed = prev\<lparr>chatHistory := chatHistory prev @ [aiMessage refineFailedText],
                        isRefining := False\<rparr>
      in case resp of
           Inl e \<Rightarrow> failed
         | Inr None \<Rightarrow> prev\<lparr>isRefining := False\<rparr>
         | Inr (Some jsonText) \<Rightarrow>
             if jsonText = [] then prev\<lparr>isRefining := False\<rparr>
             else (case parsePlan jsonText of
                     Inl e \<Rightarrow> failed
                   | Inr newPlan \<Rightarrow>
                       prev\<lparr>currentPlan := newPlan,
                            chatHistory := chatHistory prev @
                              [aiMessage refineConfirmText, aiMessage refineRatingText],
                            feedbackTimers := Suc (feedbackTimers prev),
                            isRefining := False\<rparr>))"

text \<open>
  \<open>handleRefine(e, manualInput)\<close> run against a backend: the final state and the requests
  issued. (\<open>e.preventDefault()\<close> acts on the event only.)
\<close>

definition handleRefine ::
  "backend \<Rightarrow> BusinessPlan parser \<Rightarrow> Dashboard \<Rightarrow> jsstring option \<Rightarrow> Dashboard \<times> request list" where
  "handleRefine ai parsePlan d manualInput =
     (let inputToUse = orElse manualInput (chatInput d)
      in if trim inputToUse = [] then (d, [])
         else
           let userMsg = inputToUse;
               d1 = d\<lparr>chatInput := [], chatHistory := chatHistory d @ [userMessage userMsg],
                      isRefining := True, chatFocusMode := False\<rparr>;
               r = RefinePlan (currentPlan d) (map text' (chatHistory d)) userMsg
           in (onRefineResponse parsePlan (ai r) d1, [r]))"

text \<open>
  The synchronous head of \<open>handleRefine\<close>, up to the \<open>await\<close>: nothing when the guard
  returns, else the updated state and the refinement request.
\<close>

definition refineStart :: "Dashboard \<Rightarrow> jsstring option \<Rightarrow> (Dashboard \<times> request) option" where
  "refineStart d manualInput =
     (let inputToUse = orElse manualInput (chatInput d)
      in if trim inputToUse = [] then None
         else
           let userMsg = inputToUse
           in Some (d\<lparr>chatInput := [], chatHistory := chatHistory d @ [userMessage userMsg],
                      isRefining := True, chatFocusMode := False\<rparr>,
                    RefinePlan (currentPlan d) (map text' (chatHistory d)) userMsg))"

text \<open>
  \<open>handleVerifyLegal(index)\<close> suspends at its \<open>await\<close>. What its closure holds from the
  render in which it was started: the index, the entry \<open>item\<close> and the array
  \<open>currentPlan.legal_requirements\<close>.
\<close>

record verification =
  vIndex :: nat
  vItem :: jsobject
  vReqs :: "jsobject list"

text \<open>
  The synchronous head of \<open>handleVerifyLegal\<close>, up to the \<open>await\<close>: the updated state and,
  if the call is made, the request with the closure. Out of range, \<open>item\<close> is undefined
  and reading \<open>item.name\<close> throws inside the \<open>try\<close>: no call is made, and the \<open>finally\<close>
  block runs at once.
\<close>

definition handleVerifyLegal ::
  "Dashboard \<Rightarrow> nat \<Rightarrow> Dashboard \<times> (request \<times> verification) option" where
  "handleVerifyLegal d index =
     (let d1 = d\<lparr>verifyingLegal := Some index\<rparr>;
          reqs = legal_requirements (currentPlan d)
      in if index < length reqs then
           let item = reqs ! index
           in (d1, Some (VerifyRegulatoryDetail (item (js ''name''))
                           (target_location (currentPlan d)),
                         \<lparr>vIndex = index, vItem = item, vReqs = reqs\<rparr>))
         else (d1\<lparr>verifyingLegal := None\<rparr>, None))"

text \<open>
  The continuation of \<open>handleVerifyLegal\<close> after the \<open>await\<close>, applied to the state \<open>prev\<close>
  of that moment: \<open>newReqs\<close> is a copy of the array of the closure with the merged entry
  at the index, and \<open>setCurrentPlan(prev => ({ ...prev, legal_requirements: newReqs }))\<close>
  writes it into the plan of \<open>prev\<close>.
\<close>

definition onVerifyResponse ::
  "jsobject parser \<Rightarrow> verification \<Rightarrow> response \<Rightarrow> Dashboard \<Rightarrow> Dashboard" where
  "onVerifyResponse parseDetail c resp prev =
     (case resp of
        Inl e \<Rightarrow> prev\<lparr>verifyingLegal := None\<rparr>
      | Inr t \<Rightarrow>
          (case jsonParse parseDetail t of
             Inl e \<Rightarrow> prev\<lparr>verifyingLegal := None\<rparr>
           | Inr updatedItem \<Rightarrow>
               let newReqs = (vReqs c)[vIndex c := spread (vItem c) updatedItem]
               in prev\<lparr>currentPlan := (currentPlan prev)\<lparr>legal_requirements := newReqs\<rparr>,
                       verifyingLegal := None\<rparr>))"

section \<open>App: sessions, resets and calls in flight\<close>

text \<open>
  \<open>App\<close> holds \<open>generatedPlan\<close> and renders \<open>Hero\<close> while it is null and
  \<open>PlanDashboard\<close> otherwise. A component that is rendered anew starts from its initial
  state, and state updates addressed to a component that is no longer mounted are dropped.
  \<open>session\<close> numbers the mounted component instance. A handler that is suspended at an
  \<open>await\<close> is a call in flight: the instance that started it, the request it waits for
  and its continuation with the values its closure holds. Besides the three stages of
  \<open>startAnalysis\<close> these are the refinement and the field verification of the dashboard,
  and any other handler below the dashboard (script generation, map search, image
  generation), whose continuation writes the state of its own instance only.
\<close>

datatype view = HeroView Hero | DashboardView Dashboard

datatype pending =
    AwaitAnalysis jsstring jsstring
  | AwaitResearch jsstring jsstring AnalysisResult
  | AwaitPlan
  | AwaitRefine
  | AwaitVerify verification
  | AwaitOther "response \<Rightarrow> Dashboard \<Rightarrow> Dashboard"

record call =
  owner :: nat
  req :: request
  cont :: pending

record App =
  generatedPlan :: "BusinessPlan option"
  view :: view
  session :: nat
  inflight :: "call list"


text \<open>
  \<open>setGeneratedPlan\<close>, with the re-rendering of \<open>App\<close> that follows. It is what \<open>Hero\<close>
  receives as \<open>onPlanGenerated\<close>, and \<open>onReset\<close> is \<open>setGeneratedPlan(null)\<close>. A dashboard
  that stays mounted keeps its own \<open>currentPlan\<close>.
\<close>

definition setGeneratedPlan :: "BusinessPlan option \<Rightarrow> App \<Rightarrow> App" where
  "setGeneratedPlan p a =
     (case (generatedPlan a, p) of
        (None, Some plan) \<Rightarrow>
          a\<lparr>generatedPlan := Some plan, view := DashboardView (mountDashboard plan),
            session := Suc (session a)\<rparr>
      | (Some old, None) \<Rightarrow>
          a\<lparr>generatedPlan := None, view := HeroView initialHero, session := Suc (session a)\<rparr>
      | (Some old, Some plan) \<Rightarrow> a\<lparr>generatedPlan := Some plan\<rparr>
      | (None, None) \<Rightarrow> a)"

text \<open>
  What the user and the backend can do. The transcript and the language can be set while
  \<open>Hero\<close> is mounted; the input area with its submit controls is rendered only while
  \<open>processingState\<close> is idle. While the dashboard is mounted, the reset button, the quick
  prompts and the chat form (\<open>Refine\<close>), the verify buttons (\<open>Verify\<close>) and the other
  controls are offered: \<open>DashboardUpdate\<close> is a handler that writes the state at once,
  \<open>DashboardCall\<close> one that writes, makes a call and writes again on the response. A
  response can arrive for any call in flight, in any order.
\<close>

datatype event =
    SetTranscript jsstring
  | SetLanguage jsstring
  | Submit
  | Respond nat response
  | Reset
  | Refine "jsstring option"
  | Verify nat
  | DashboardUpdate "Dashboard \<Rightarrow> Dashboard"
  | DashboardCall "Dashboard \<Rightarrow> Dashboard" request "response \<Rightarrow> Dashboard \<Rightarrow> Dashboard"

definition removeAt :: "nat \<Rightarrow> 'a list \<Rightarrow> 'a list" where
  "removeAt i xs = take i xs @ drop (Suc i) xs"

text \<open>
  The state of the instance a continuation writes to: the mounted component if it is the
  one that started the call. Otherwise the writes are dropped.
\<close>

definition liveHero :: "App \<Rightarrow> nat \<Rightarrow> Hero option" where
  "liveHero a n = (case view a of HeroView h \<Rightarrow> if n = session a then Some h else None
                   | DashboardView d \<Rightarrow> None)"

definition writeHero :: "nat \<Rightarrow> Hero \<Rightarrow> App \<Rightarrow> App" where
  "writeHero n h a = (case liveHero a n of Some old \<Rightarrow> a\<lparr>view := HeroView h\<rparr> | None \<Rightarrow> a)"

definition currentHero :: "App \<Rightarrow> nat \<Rightarrow> Hero" where
  "currentHero a n = (case liveHero a n of Some h \<Rightarrow> h | None \<Rightarrow> initialHero)"

definition writeDashboard :: "nat \<Rightarrow> (Dashboard \<Rightarrow> Dashboard) \<Rightarrow> App \<Rightarrow> App" where
  "writeDashboard n f a =
     (case view a of
        DashboardView d \<Rightarrow> if n = session a then a\<lparr>view := DashboardView (f d)\<rparr> else a
      | HeroView h \<Rightarrow> a)"

text \<open>The continuation of a call in flight, resumed with its response.\<close>

definition resume ::
  "AnalysisResult parser \<Rightarrow> BusinessPlan parser \<Rightarrow> jsobject parser \<Rightarrow> call \<Rightarrow> response \<Rightarrow>
     App \<Rightarrow> App" where
  "resume parseAnalysis parsePlan parseDetail c resp a =
     (let n = owner c; h = currentHero a n
      in case cont c of
           AwaitAnalysis hist lang \<Rightarrow>
             (case onAnalysisResponse parseAnalysis resp h of
                (h', None) \<Rightarrow> writeHero n h' a
              | (h', Some analysis) \<Rightarrow>
                  (writeHero n h' a)
                    \<lparr>inflight := inflight a @
                       [\<lparr>owner = n, req = Research (researchQuery analysis),
                         cont = AwaitResearch hist lang analysis\<rparr>]\<rparr>)
         | AwaitResearch hist lang analysis \<Rightarrow>
             (case onResearchResponse resp h of
                (h', None) \<Rightarrow> writeHero n h' a
              | (h', Some researchContext) \<Rightarrow>
                  (writeHero n h' a)
                    \<lparr>inflight := inflight a @
                       [\<lparr>owner = n,
                         req = GeneratePlan hist lang researchContext (identified_location analysis),
                         cont = AwaitPlan\<rparr>]\<rparr>)
         | AwaitPlan \<Rightarrow>
             (case onPlanResponse parsePlan resp h of
                (h', None) \<Rightarrow> writeHero n h' a
              | (h', Some plan) \<Rightarrow> setGeneratedPlan (Some plan) (writeHero n h' a))
         | AwaitRefine \<Rightarrow> writeDashboard n (onRefineResponse parsePlan resp) a
         | AwaitVerify v \<Rightarrow> writeDashboard n (onVerifyResponse parseDetail v resp) a
         | AwaitOther k \<Rightarrow> writeDashboard n (k resp) a)"

text \<open>One event; \<open>None\<close> when the interface does not offer it in this state.\<close>

definition step ::
  "AnalysisResult parser \<Rightarrow> BusinessPlan parser \<Rightarrow> jsobject parser \<Rightarrow> event \<Rightarrow> App \<Rightarrow>
     App option" where
  "step parseAnalysis parsePlan parseDetail ev a =
     (case ev of
        SetTranscript t \<Rightarrow>
          (case view a of HeroView h \<Rightarrow> Some (a\<lparr>view := HeroView (h\<lparr>transcript := t\<rparr>)\<rparr>)
           | DashboardView d \<Rightarrow> None)
      | SetLanguage l \<Rightarrow>
          (case view a of HeroView h \<Rightarrow> Some (a\<lparr>view := HeroView (h\<lparr>language := l\<rparr>)\<rparr>)
           | DashboardView d \<Rightarrow> None)
      | Submit \<Rightarrow>
          (case view a of
             HeroView h \<Rightarrow>
               if processingState h = Idle then
                 (case submit h of
                    None \<Rightarrow> Some a
                  | Some (h1, r) \<Rightarrow>
                      Some (a\<lparr>view := HeroView h1,
                              inflight := inflight a @
                                [\<lparr>owner = session a, req = r,
                                  cont = AwaitAnalysis (historyText (messages h1)) (language h)\<rparr>]\<rparr>))
               else None
           | DashboardView d \<Rightarrow> None)
      | Respond i resp \<Rightarrow>
          if i < length (inflight a) then
            Some (resume parseAnalysis parsePlan parseDetail (inflight a ! i) resp
                    (a\<lparr>inflight := removeAt i (inflight a)\<rparr>))
          else None
      | Reset \<Rightarrow>
          (case view a of DashboardView d \<Rightarrow> Some (setGeneratedPlan None a)
           | HeroView h \<Rightarrow> None)
      | Refine manualInput \<Rightarrow>
          (case view a of
             DashboardView d \<Rightarrow>
               (case refineStart d manualInput of
                  None \<Rightarrow> Some a
                | Some (d1, r) \<Rightarrow>
                    Some (a\<lparr>view := DashboardView d1,
                            inflight := inflight a @
                              [\<lparr>owner = session a, req = r, cont = AwaitRefine\<rparr>]\<rparr>))
           | HeroView h \<Rightarrow> None)
      | Verify index \<Rightarrow>
          (case view a of
             DashboardView d \<Rightarrow>
               (case handleVerifyLegal d index of
                  (d1, None) \<Rightarrow> Some (a\<lparr>view := DashboardView d1\<rparr>)
                | (d1, Some (r, v)) \<Rightarrow>
                    Some (a\<lparr>view := DashboardView d1,
                            inflight := inflight a @
                              [\<lparr>owner = session a, req = r, cont = AwaitVerify v\<rparr>]\<rparr>))
           | HeroView h \<Rightarrow> None)
      | DashboardUpdate f \<Rightarrow>
          (case view a of DashboardView d \<Rightarrow> Some (a\<lparr>view := DashboardView (f d)\<rparr>)
           | HeroView h \<Rightarrow> None)
      | DashboardCall f r k \<Rightarrow>
          (case view a of
             DashboardView d \<Rightarrow>
               Some (a\<lparr>view := DashboardView (f d),
                       inflight := inflight a @
                         [\<lparr>owner = session a, req = r, cont = AwaitOther k\<rparr>]\<rparr>)
           | HeroView h \<Rightarrow> None))"

fun run ::
  "AnalysisResult parser \<Rightarrow> BusinessPlan parser \<Rightarrow> jsobject parser \<Rightarrow> event list \<Rightarrow> App \<Rightarrow>
     App option" where
  "run parseAnalysis parsePlan parseDetail [] a = Some a"
| "run parseAnalysis parsePlan parseDetail (ev # evs) a =
     (case step parseAnalysis parsePlan parseDetail ev a of
        None \<Rightarrow> None
      | Some a' \<Rightarrow> run parseAnalysis parsePlan parseDetail evs a')"

section \<open>Notions used in the statements\<close>

text \<open>
  A request of the pipeline fails when the call throws, or when the text of its response
  does not parse (for the two calls whose response is parsed).
\<close>

definition responseFails ::
  "backend \<Rightarrow> AnalysisResult parser \<Rightarrow> BusinessPlan parser \<Rightarrow> request \<Rightarrow> bool" where
  "responseFails ai parseAnalysis parsePlan r =
     (case ai r of
        Inl e \<Rightarrow> True
      | Inr t \<Rightarrow>
          (case r of
             AnalyzeIntent hist lang \<Rightarrow> isl (jsonParse parseAnalysis t)
           | GeneratePlan hist lang ctx loc \<Rightarrow> isl (jsonParse parsePlan t)
           | _ \<Rightarrow> False))"




section \<open>Sample data\<close>

definition samplePlan :: BusinessPlan where
  "samplePlan =
     \<lparr>idea_summary = js ''Tea stall'', target_location = js ''Indiranagar, Bangalore'',
      budget_estimate = \<lparr>min' = Fin 50000, max' = Fin 80000, currency = js ''INR''\<rparr>,
      business_plan = \<lparr>products = [js ''Tea''], target_customers = js ''Office workers'',
                        timing = js ''7am-9pm''\<rparr>,
      market_insights = \<lparr>opportunities = [], seasonal_trends = [], underserved_niches = [],
                          competitor_pricing = js ''Rs. 15 per cup'',
                          rental_costs = [8377] @ js ''10,000/month'',
                          supply_chain_options = [], utility_costs = js ''varies'',
                          govt_subsidies = []\<rparr>,
      financial_breakdown = \<lparr>fixed_costs_monthly = [[8377] @ js ''10,000/month''],
                              variable_costs_per_unit = [8377] @ js ''8'',
                              profit_margin_per_unit = [8377] @ js ''7'',
                              break_even_analysis = js ''Sell 50 cups a day'',
                              break_even_learn_more_url = None,
                              financial_projections_year_1 = []\<rparr>,
      marketing_strategy = [], setup_checklist = [js ''Get FSSAI licence''],
      legal_requirements =
        [[js ''name'' \<mapsto> JStr (js ''FSSAI''), js ''estimated_cost'' \<mapsto> JStr (js ''100'')],
         [js ''name'' \<mapsto> JStr (js ''Trade licence''),
          js ''estimated_cost'' \<mapsto> JStr (js ''500'')]],
      vendor_scripts = [], estimated_daily_profit = js ''500'', optimization_suggestions = []\<rparr>"

definition revisedPlan :: BusinessPlan where
  "revisedPlan = samplePlan\<lparr>idea_summary := js ''Tea cart''\<rparr>"

definition sampleHero :: Hero where
  "sampleHero = initialHero\<lparr>transcript := js ''tea stall''\<rparr>"

definition sufficientAnalysis :: AnalysisResult where
  "sufficientAnalysis =
     \<lparr>is_sufficient = True, clarification_question = None, search_query = None,
      identified_location = Some (js ''Pune''), identified_business = Some (js ''tea stall''),
      detected_language = None\<rparr>"

definition insufficientAnalysis :: AnalysisResult where
  "insufficientAnalysis =
     \<lparr>is_sufficient = False, clarification_question = None, search_query = None,
      identified_location = None, identified_business = Some (js ''tea stall''),
      detected_language = None\<rparr>"


definition askingAnalysis :: AnalysisResult where
  "askingAnalysis = insufficientAnalysis\<lparr>clarification_question := Some (js ''Where?'')\<rparr>"

definition sampleText :: response where
  "sampleText = Inr (Some (js ''{}''))"

definition okBackend :: backend where
  "okBackend r = sampleText"

definition sampleDashboard :: Dashboard where
  "sampleDashboard = (mountDashboard samplePlan)\<lparr>chatInput := js ''cheaper''\<rparr>"

definition sampleUpdate :: jsobject where
  "sampleUpdate = [js ''estimated_cost'' \<mapsto> JStr (js ''750'')]"

definition firstUpdate :: jsobject where
  "firstUpdate = [js ''estimated_cost'' \<mapsto> JStr (js ''120'')]"

definition firstText :: response where
  "firstText = Inr (Some (js ''first''))"

definition sampleParseDetail :: "jsobject parser" where
  "sampleParseDetail s = (if s = js ''first'' then Inr firstUpdate else Inr sampleUpdate)"

definition verifyingFirst :: Dashboard where
  "verifyingFirst = (mountDashboard samplePlan)\<lparr>verifyingLegal := Some 0\<rparr>"

definition verifyingSecond :: Dashboard where
  "verifyingSecond = (mountDashboard samplePlan)\<lparr>verifyingLegal := Some (Suc 0)\<rparr>"

definition firstVerification :: verification where
  "firstVerification =
     \<lparr>vIndex = 0, vItem = legal_requirements samplePlan ! 0,
      vReqs = legal_requirements samplePlan\<rparr>"

definition secondVerification :: verification where
  "secondVerification =
     \<lparr>vIndex = Suc 0, vItem = legal_requirements samplePlan ! Suc 0,
      vReqs = legal_requirements samplePlan\<rparr>"


section \<open>Empty input\<close>

text \<open>
  C8. When the transcript trims to the empty string, \<open>startAnalysis\<close> returns before any
  effect: the component state is the one it started from (no turn appended, the processing
  state untouched), no request is issued, and \<open>onPlanGenerated\<close> is not called.
\<close>

theorem startAnalysis_empty_input:
  "trim (transcript h) = [] \<Longrightarrow>
   startAnalysis ai parseAnalysis parsePlan h = \<lparr>hero = h, calls = [], delivered = None\<rparr>"
  by (simp add: startAnalysis_def submit_def)

theorem startAnalysis_empty_input_witness:
  "trim (transcript (initialHero\<lparr>transcript := js '' ''\<rparr>)) = [] \<and>
   startAnalysis (\<lambda>r. Inl BackendCallError) (\<lambda>s. Inl SyntaxError) (\<lambda>s. Inl SyntaxError)
     (initialHero\<lparr>transcript := js '' ''\<rparr>)
   = \<lparr>hero = initialHero\<lparr>transcript := js '' ''\<rparr>, calls = [], delivered = None\<rparr>"
proof -
  have t: "trim (transcript (initialHero\<lparr>transcript := js '' ''\<rparr>)) = []"
    by (simp add: trim_def js_def isWhiteSpace_def)
  show ?thesis by (rule conjI [OF t startAnalysis_empty_input [OF t]])
qed

text \<open>
  C10. With no manual input and a chat input that trims to the empty string,
  \<open>handleRefine\<close> does nothing: the dashboard state (chat history and current plan
  included) is unchanged and no request is issued.
\<close>

theorem handleRefine_empty_input:
  "trim (chatInput d) = [] \<Longrightarrow> handleRefine ai parsePlan d None = (d, [])"
  by (simp add: handleRefine_def orElse_def)

theorem handleRefine_empty_input_witness:
  "trim (chatInput ((mountDashboard samplePlan)\<lparr>chatInput := js ''  ''\<rparr>)) = [] \<and>
   handleRefine (\<lambda>r. Inl BackendCallError) (\<lambda>s. Inl SyntaxError)
     ((mountDashboard samplePlan)\<lparr>chatInput := js ''  ''\<rparr>) None
   = ((mountDashboard samplePlan)\<lparr>chatInput := js ''  ''\<rparr>, [])"
proof -
  have t: "trim (chatInput ((mountDashboard samplePlan)\<lparr>chatInput := js ''  ''\<rparr>)) = []"
    by (simp add: trim_def js_def isWhiteSpace_def)
  show ?thesis by (rule conjI [OF t handleRefine_empty_input [OF t]])
qed

section \<open>Rounding to a double\<close>

lemmas roundDouble_eval =
  roundDouble_def floorLog2_def bitLength.simps pow2_def roundHalfEven_def Let_def

lemmas js_arith = js_add_def js_sub_def js_div_def js_gt_def js_eq_def signedZero_def signedInf_def

lemma bitLength_eq: "2 ^ k \<le> n \<Longrightarrow> n < 2 ^ Suc k \<Longrightarrow> bitLength n = Suc k"
proof (induction k arbitrary: n)
  case 0
  then have "n = 1" by simp
  then show ?case by (simp add: bitLength.simps)
next
  case (Suc k)
  from Suc.prems have "2 ^ k \<le> n div 2" "n div 2 < 2 ^ Suc k" by auto
  then have "bitLength (n div 2) = Suc k" by (rule Suc.IH)
  moreover from Suc.prems have "n \<noteq> 0" by auto
  ultimately show ?case by (subst bitLength.simps) simp
qed

lemma pow2_pos: "0 < pow2 k"
  by (simp add: pow2_def)

lemma pow2_nat: "pow2 (int k) = 2 ^ k"
  by (simp add: pow2_def)

lemma pow2_neg: "pow2 (- int k) = 1 / 2 ^ k"
  by (simp add: pow2_def)

lemma floorLog2_unique:
  assumes lo: "pow2 k \<le> x" and hi: "x < pow2 (k + 1)"
  shows "floorLog2 x = k"
proof (cases "1 \<le> x")
  case True
  have k0: "0 \<le> k"
  proof (rule ccontr)
    assume "\<not> 0 \<le> k"
    then have "k + 1 \<le> 0" by simp
    then have "pow2 (k + 1) \<le> 1" by (auto simp: pow2_def divide_le_eq_1)
    with hi True show False by simp
  qed
  then obtain j where j: "k = int j" by (metis nonneg_int_cases)
  from lo j have "(2::real) ^ j \<le> x" by (simp add: pow2_nat)
  then have "of_int (2 ^ j) \<le> x" by simp
  then have l: "(2::int) ^ j \<le> \<lfloor>x\<rfloor>" by (simp only: le_floor_iff)
  from hi j have "x < 2 ^ Suc j" by (simp add: pow2_def nat_add_distrib)
  then have "x < of_int (2 ^ Suc j)" by simp
  then have u: "\<lfloor>x\<rfloor> < (2::int) ^ Suc j" by (simp only: floor_less_iff)
  from l have nn: "0 \<le> \<lfloor>x\<rfloor>" by (smt (verit) zero_le_power)
  have "(2::nat) ^ j \<le> nat \<lfloor>x\<rfloor>" using l nn by (simp add: le_nat_iff)
  moreover have "nat \<lfloor>x\<rfloor> < (2::nat) ^ Suc j" using u nn by (simp add: nat_less_iff)
  ultimately have "bitLength (nat \<lfloor>x\<rfloor>) = Suc j" by (rule bitLength_eq)
  with True j show ?thesis by (simp add: floorLog2_def)
next
  case False
  from lo pow2_pos [of k] have xpos: "0 < x" by simp
  have kneg: "k < 0"
  proof (rule ccontr)
    assume "\<not> k < 0"
    then have "1 \<le> pow2 k" by (simp add: pow2_def)
    with lo False show False by simp
  qed
  then obtain j where j: "k = - int (Suc j)"
    by (metis Suc_pred' add.inverse_inverse neg_0_less_iff_less zero_less_imp_eq_int)
  from lo j have lo': "1 / 2 ^ Suc j \<le> x" by (simp only: pow2_neg)
  from hi j have "x < pow2 (- int j)" by simp
  then have hi': "x < 1 / 2 ^ j" by (simp only: pow2_neg)
  from lo' xpos have a: "1 / x \<le> 2 ^ Suc j" by (simp add: field_simps)
  from hi' xpos have b: "2 ^ j < 1 / x" by (simp add: field_simps)
  from a have "1 / x \<le> of_int (2 ^ Suc j)" by simp
  then have c1: "\<lceil>1 / x\<rceil> \<le> 2 ^ Suc j" by (simp only: ceiling_le_iff)
  from b have "of_int (2 ^ j) < 1 / x" by simp
  then have c2: "2 ^ j < \<lceil>1 / x\<rceil>" by (simp only: less_ceiling_iff)
  have "(2::nat) ^ j \<le> nat (\<lceil>1 / x\<rceil> - 1)" using c2 by (simp add: le_nat_iff)
  moreover have "nat (\<lceil>1 / x\<rceil> - 1) < (2::nat) ^ Suc j"
  proof -
    have "(0::int) < 2 ^ j" by simp
    with c2 have p: "0 \<le> \<lceil>1 / x\<rceil> - 1" by linarith
    from c1 have "\<lceil>1 / x\<rceil> - 1 < int (2 ^ Suc j)" by simp
    then show ?thesis by (simp only: nat_less_iff [OF p])
  qed
  ultimately have "bitLength (nat (\<lceil>1 / x\<rceil> - 1)) = Suc j" by (rule bitLength_eq)
  with False j show ?thesis by (simp add: floorLog2_def)
qed


text \<open>With the binary exponent known, rounding needs no search.\<close>

lemma roundDouble_at:
  assumes "pow2 k \<le> \<bar>x\<bar>" "\<bar>x\<bar> < pow2 (k + 1)"
  shows "roundDouble x =
     (let q = max (k - 52) (- 1074);
          m = roundHalfEven (\<bar>x\<bar> / pow2 q);
          y = of_int m * pow2 q
      in if pow2 1024 \<le> y then (if x < 0 then NegInf else PosInf)
         else if m = 0 then (if x < 0 then NegZero else Fin 0)
         else Fin (if x < 0 then - y else y))"
proof -
  from assms(1) pow2_pos [of k] have "x \<noteq> 0" by auto
  then show ?thesis
    by (simp add: roundDouble_def floorLog2_unique [OF assms])
qed


text \<open>
  Sample values: the doubles nearest to 0.1, 0.01, 0.6 and \<open>10 ^ 308\<close>; the sum of 0.7 and
  0.1 less 0.7; an integer beyond \<open>2 ^ 53\<close>; the least magnitude that overflows.
\<close>

lemma roundDouble_tenth: "roundDouble (1 / 10) = Fin (3602879701896397 / 2 ^ 55)"
  by (simp add: roundDouble_eval)

lemma roundDouble_hundredth: "roundDouble (1 / 100) = Fin (5764607523034235 / 2 ^ 59)"
  by (simp add: roundDouble_eval)

lemma roundDouble_three_fifths: "roundDouble (3 / 5) = Fin (5404319552844595 / 2 ^ 53)"
  by (simp add: roundDouble_eval)

lemma roundDouble_odd_integer: "roundDouble (2 ^ 53 + 1) = Fin (2 ^ 53)"
  by (simp add: roundDouble_eval)

lemma js_sub_rounds:
  "js_sub (js_add (roundDouble (7 / 10)) (roundDouble (1 / 10))) (roundDouble (7 / 10))
     = Fin (900719925474099 / 2 ^ 53)"
  by (simp add: js_arith roundDouble_eval)

lemma js_sub_signed_zero:
  "js_sub (Fin 50) (Fin 50) = Fin 0" "js_sub NegZero (Fin 0) = NegZero"
  by (simp_all add: js_arith)

lemma roundDouble_large: "roundDouble (10 ^ 308) = Fin (5010420900022432 * 2 ^ 971)"
proof -
  have "roundDouble (10 ^ 308) =
     (let q = max (1023 - 52) (- 1074);
          m = roundHalfEven (\<bar>10 ^ 308\<bar> / pow2 q);
          y = of_int m * pow2 q
      in if pow2 1024 \<le> y then (if (10 ^ 308 :: real) < 0 then NegInf else PosInf)
         else if m = 0 then (if (10 ^ 308 :: real) < 0 then NegZero else Fin 0)
         else Fin (if (10 ^ 308 :: real) < 0 then - y else y))"
    by (rule roundDouble_at) (simp_all add: pow2_def)
  then show ?thesis
    by (simp add: pow2_def roundHalfEven_def Let_def)
qed

lemma roundDouble_overflow:
  "roundDouble (5010420900022432 * 2 ^ 971 / - (900719925474099 / 2 ^ 53)) = NegInf"
proof -
  let ?x = "5010420900022432 * 2 ^ 971 / - (900719925474099 / 2 ^ 53) :: real"
  have "roundDouble ?x =
     (let q = max (1026 - 52) (- 1074);
          m = roundHalfEven (\<bar>?x\<bar> / pow2 q);
          y = of_int m * pow2 q
      in if pow2 1024 \<le> y then (if ?x < 0 then NegInf else PosInf)
         else if m = 0 then (if ?x < 0 then NegZero else Fin 0)
         else Fin (if ?x < 0 then - y else y))"
    by (rule roundDouble_at) (simp_all add: pow2_def)
  then show ?thesis
    by (simp add: pow2_def roundHalfEven_def Let_def)
qed

section \<open>Financial derivation\<close>

lemma breakEvenUnits_rounds:
  "breakEvenUnits (Fin 0) (roundDouble (1 / 100)) (Fin 1) = Fin (- 100)"
  by (simp add: roundDouble_hundredth breakEvenUnits_def js_arith roundDouble_eval)

lemma breakEvenUnits_overflows:
  "breakEvenUnits (roundDouble (1 / 2)) (roundDouble (3 / 5)) (roundDouble (10 ^ 308)) = NegInf"
proof -
  have h: "roundDouble (1 / 2) = Fin (1 / 2)" by (simp add: roundDouble_eval)
  have s: "js_sub (Fin (1 / 2)) (Fin (5404319552844595 / 2 ^ 53))
             = Fin (- (900719925474099 / 2 ^ 53))"
    by (simp add: js_arith roundDouble_eval)
  have d: "js_div (Fin (5010420900022432 * 2 ^ 971)) (Fin (- (900719925474099 / 2 ^ 53)))
             = roundDouble (5010420900022432 * 2 ^ 971 / - (900719925474099 / 2 ^ 53))"
    by (simp add: js_div_def)
  show ?thesis
    unfolding breakEvenUnits_def h roundDouble_three_fifths roundDouble_large s d
      roundDouble_overflow
    by simp
qed














text \<open>
  \<open>parseCurrency\<close>: the match is the first maximal run of digits, commas and full stops;
  a string without such a character gives 0; the documented examples hold; the value is
  rounded to a double, and a long run of digits overflows.
\<close>

lemma matchNumRun_first_run:
  "matchNumRun s =
     (let run = takeWhile isNumChar (dropWhile (\<lambda>c. \<not> isNumChar c) s)
      in if run = [] then None else Some run)"
  by (induction s) (simp_all add: Let_def)

lemma matchNumRun_none: "(matchNumRun s = None) = (\<forall>c \<in> set s. \<not> isNumChar c)"
  by (induction s) simp_all

lemma parseCurrency_no_run: "\<forall>c \<in> set s. \<not> isNumChar c \<Longrightarrow> parseCurrency s = Fin 0"
  using matchNumRun_none [of s] by (simp add: parseCurrency_def)

lemmas parseCurrency_eval =
  parseCurrency_def js_def isNumChar_def isDigit_def removeCommas_def parseFloat_def
  digitsValue_def

lemma parseCurrency_examples:
  "parseCurrency ([8377] @ js ''1,250 per month'') = Fin 1250"
  "parseCurrency ([8377] @ js ''10,000/month'') = Fin 10000"
  "parseCurrency (js ''varies'') = Fin 0"
  by (simp_all add: parseCurrency_eval roundDouble_eval)

lemma parseCurrency_rounds:
  "parseCurrency (js ''0.1 per cup'') = Fin (3602879701896397 / 2 ^ 55)"
  using roundDouble_tenth by (simp add: parseCurrency_eval)

lemma digitsValue_zeros: "foldl (\<lambda>acc c. 10 * acc + real (c - 48)) a (replicate n 48) = a * 10 ^ n"
  by (induction n arbitrary: a) simp_all

lemma parseFloat_overflows: "parseFloat (49 # replicate 400 48) = PosInf"
proof -
  have t: "takeWhile isDigit (49 # replicate 400 48) = 49 # replicate 400 48"
    by (simp add: isDigit_def)
  have d: "dropWhile isDigit (49 # replicate 400 48) = []"
    by (simp add: isDigit_def)
  have v: "digitsValue (49 # replicate 400 48) = 10 ^ 400"
    by (simp add: digitsValue_def digitsValue_zeros)
  have "roundDouble (10 ^ 400) =
     (let q = max (1328 - 52) (- 1074);
          m = roundHalfEven (\<bar>10 ^ 400\<bar> / pow2 q);
          y = of_int m * pow2 q
      in if pow2 1024 \<le> y then (if (10 ^ 400 :: real) < 0 then NegInf else PosInf)
         else if m = 0 then (if (10 ^ 400 :: real) < 0 then NegZero else Fin 0)
         else Fin (if (10 ^ 400 :: real) < 0 then - y else y))"
    by (rule roundDouble_at) (simp_all add: pow2_def)
  then have r: "roundDouble (10 ^ 400) = PosInf"
    by (simp add: pow2_def roundHalfEven_def Let_def)
  have "parseFloat (49 # replicate 400 48) = roundDouble (digitsValue (49 # replicate 400 48))"
    unfolding parseFloat_def t d by simp
  also have "\<dots> = roundDouble (10 ^ 400)" by (simp only: v)
  also note r
  finally show ?thesis .
qed

text \<open>
  C5. On \<open>Rs. 500 per month\<close> the first run of digits and separators is the full stop after
  \<open>Rs\<close>, which holds no number: \<open>parseCurrency\<close> returns NaN, neither 500 nor 0.
\<close>

theorem parseCurrency_lone_separator:
  "parseCurrency (js ''Rs. 500 per month'') = NaN"
  by (simp add: parseCurrency_def js_def isNumChar_def isDigit_def removeCommas_def
      parseFloat_def)

section \<open>The generation pipeline\<close>

text \<open>A run that passes the guard, unfolded into its three stages.\<close>

lemma startAnalysis_cases:
  assumes "trim (transcript h) \<noteq> []"
  shows "startAnalysis ai pa pp h =
    (let h1 = h\<lparr>transcript := [], messages := messages h @ [userMessage (transcript h)],
                 processingState := Analyzing,
                 thinkingSteps := [js ''Reading context...'', js ''Identifying business idea...'',
                                     js ''Locating target area...''],
                 activeStepIndex := 0\<rparr>;
         r1 = AnalyzeIntent (historyText (messages h @ [userMessage (transcript h)])) (language h)
     in case onAnalysisResponse pa (ai r1) h1 of
             (h2, None) \<Rightarrow> \<lparr>hero = h2, calls = [r1], delivered = None\<rparr>
           | (h2, Some analysis) \<Rightarrow>
               let r2 = Research (researchQuery analysis) in
               (case onResearchResponse (ai r2) h2 of
                  (h3, None) \<Rightarrow> \<lparr>hero = h3, calls = [r1, r2], delivered = None\<rparr>
                | (h3, Some researchContext) \<Rightarrow>
                    let r3 = GeneratePlan (historyText (messages h1)) (language h)
                               researchContext (identified_location analysis)
                    in (case onPlanResponse pp (ai r3) h3 of
                          (h4, d) \<Rightarrow> \<lparr>hero = h4, calls = [r1, r2, r3], delivered = d\<rparr>)))"
  using assms by (simp add: startAnalysis_def submit_def Let_def)

lemma sampleHero_guard: "trim (transcript sampleHero) \<noteq> []"
  by (simp add: sampleHero_def initialHero_def trim_def js_def isWhiteSpace_def)

lemma okBackend_analysis:
  "okBackend (AnalyzeIntent (historyText (messages sampleHero @ [userMessage (transcript sampleHero)]))
     (language sampleHero)) = Inr (Some (js ''{}''))"
  by (simp add: okBackend_def sampleText_def)

text \<open>
  A run in which every call answers and every response parses issues the three requests
  and hands the plan on; the state is left at \<open>Generating\<close>.
\<close>

lemma startAnalysis_success_sample:
  "delivered (startAnalysis okBackend (\<lambda>s. Inr sufficientAnalysis) (\<lambda>s. Inr samplePlan)
                sampleHero) = Some samplePlan \<and>
   length (calls (startAnalysis okBackend (\<lambda>s. Inr sufficientAnalysis) (\<lambda>s. Inr samplePlan)
                    sampleHero)) = 3 \<and>
   processingState (hero (startAnalysis okBackend (\<lambda>s. Inr sufficientAnalysis)
                            (\<lambda>s. Inr samplePlan) sampleHero)) = Generating"
  unfolding startAnalysis_cases [OF sampleHero_guard]
  by (simp add: Let_def onAnalysisResponse_def onResearchResponse_def onPlanResponse_def
      okBackend_def sampleText_def jsonParse_def sufficientAnalysis_def)

text \<open>
  C1. When the submission passes the guard and one of the requests issued in the run fails
  (the call throws, or the analysis or plan response does not parse), the turn sequence
  grows by the user turn and exactly one assistant turn, the generic failure message; the
  processing state is idle again; and \<open>onPlanGenerated\<close> is not called.
\<close>

theorem startAnalysis_failure:
  assumes guard: "trim (transcript h) \<noteq> []"
    and fails: "\<exists>r \<in> set (calls (startAnalysis ai pa pp h)). responseFails ai pa pp r"
  shows "messages (hero (startAnalysis ai pa pp h))
           = messages h @ [userMessage (transcript h), aiMessage failureText] \<and>
         processingState (hero (startAnalysis ai pa pp h)) = Idle \<and>
         delivered (startAnalysis ai pa pp h) = None"
  using fails unfolding startAnalysis_cases [OF guard]
  by (auto simp: Let_def onAnalysisResponse_def onResearchResponse_def onPlanResponse_def
      responseFails_def onError_def
      split: sum.splits prod.splits option.splits if_splits)

theorem startAnalysis_failure_witness:
  "trim (transcript sampleHero) \<noteq> [] \<and>
   (\<exists>r \<in> set (calls (startAnalysis okBackend (\<lambda>s. Inr sufficientAnalysis)
                          (\<lambda>s. Inl SyntaxError) sampleHero)).
      responseFails okBackend (\<lambda>s. Inr sufficientAnalysis) (\<lambda>s. Inl SyntaxError) r) \<and>
   messages (hero (startAnalysis okBackend (\<lambda>s. Inr sufficientAnalysis)
                     (\<lambda>s. Inl SyntaxError) sampleHero))
     = messages sampleHero @ [userMessage (transcript sampleHero), aiMessage failureText] \<and>
   processingState (hero (startAnalysis okBackend (\<lambda>s. Inr sufficientAnalysis)
                            (\<lambda>s. Inl SyntaxError) sampleHero)) = Idle \<and>
   delivered (startAnalysis okBackend (\<lambda>s. Inr sufficientAnalysis)
                (\<lambda>s. Inl SyntaxError) sampleHero) = None"
proof -
  let ?out = "startAnalysis okBackend (\<lambda>s. Inr sufficientAnalysis) (\<lambda>s. Inl SyntaxError)
                sampleHero"
  have c: "\<exists>r \<in> set (calls ?out).
      responseFails okBackend (\<lambda>s. Inr sufficientAnalysis) (\<lambda>s. Inl SyntaxError) r"
    unfolding startAnalysis_cases [OF sampleHero_guard]
    by (simp add: Let_def onAnalysisResponse_def onResearchResponse_def onPlanResponse_def
        responseFails_def okBackend_def sampleText_def jsonParse_def sufficientAnalysis_def)
  show ?thesis
    by (rule conjI [OF sampleHero_guard conjI [OF c startAnalysis_failure [OF sampleHero_guard c]]])
qed

text \<open>
  C6, as stated, fails when the analysis carries no clarification question: the assistant
  turn then holds the fixed fallback question.
\<close>

theorem clarification_text_default:
  "\<not> is_sufficient insufficientAnalysis \<and>
   clarification_question insufficientAnalysis = None \<and>
   map text' (messages (hero (startAnalysis okBackend (\<lambda>s. Inr insufficientAnalysis)
                     (\<lambda>s. Inl SyntaxError) sampleHero)))
     = [js ''tea stall'', js ''Could you provide more details about the location or idea?''] \<and>
   Some (text' (last (messages (hero (startAnalysis okBackend (\<lambda>s. Inr insufficientAnalysis)
                     (\<lambda>s. Inl SyntaxError) sampleHero)))))
     \<noteq> clarification_question insufficientAnalysis"
  unfolding startAnalysis_cases [OF sampleHero_guard]
  by (simp add: Let_def onAnalysisResponse_def okBackend_def sampleText_def jsonParse_def
      orElse_def insufficientAnalysis_def sampleHero_def initialHero_def userMessage_def
      aiMessage_def defaultClarification_def)

text \<open>
  C6, amended. When the analysis parses and is not sufficient, the turn sequence grows by
  the user turn and exactly one assistant turn, whose text is the clarification question
  if the analysis carries a non-empty one and the fixed fallback question otherwise; the
  processing state is idle again; the analysis request is the only one issued; and
  \<open>onPlanGenerated\<close> is not called.
\<close>

theorem startAnalysis_insufficient:
  assumes guard: "trim (transcript h) \<noteq> []"
    and resp: "ai (AnalyzeIntent (historyText (messages h @ [userMessage (transcript h)]))
                   (language h)) = Inr t"
    and parsed: "jsonParse pa t = Inr analysis"
    and insufficient: "\<not> is_sufficient analysis"
  shows "messages (hero (startAnalysis ai pa pp h))
           = messages h @ [userMessage (transcript h),
               aiMessage (case clarification_question analysis of
                            None \<Rightarrow> defaultClarification
                          | Some q \<Rightarrow> if q = [] then defaultClarification else q)] \<and>
         processingState (hero (startAnalysis ai pa pp h)) = Idle \<and>
         calls (startAnalysis ai pa pp h)
           = [AnalyzeIntent (historyText (messages h @ [userMessage (transcript h)]))
                (language h)] \<and>
         delivered (startAnalysis ai pa pp h) = None"
  unfolding startAnalysis_cases [OF guard]
  using resp parsed insufficient
  by (simp add: Let_def onAnalysisResponse_def orElse_def)

theorem startAnalysis_insufficient_witness:
  "trim (transcript sampleHero) \<noteq> [] \<and>
   okBackend (AnalyzeIntent (historyText (messages sampleHero @ [userMessage (transcript sampleHero)]))
                (language sampleHero)) = Inr (Some (js ''{}'')) \<and>
   jsonParse (\<lambda>s. Inr askingAnalysis) (Some (js ''{}'')) = Inr askingAnalysis \<and>
   \<not> is_sufficient askingAnalysis \<and>
   messages (hero (startAnalysis okBackend (\<lambda>s. Inr askingAnalysis)
                     (\<lambda>s. Inl SyntaxError) sampleHero))
     = [userMessage (js ''tea stall''), aiMessage (js ''Where?'')] \<and>
   processingState (hero (startAnalysis okBackend (\<lambda>s. Inr askingAnalysis)
                     (\<lambda>s. Inl SyntaxError) sampleHero)) = Idle"
proof -
  have p: "jsonParse (\<lambda>s. Inr askingAnalysis) (Some (js ''{}'')) = Inr askingAnalysis"
    by (simp add: jsonParse_def)
  have i: "\<not> is_sufficient askingAnalysis"
    by (simp add: askingAnalysis_def insufficientAnalysis_def)
  note t = startAnalysis_insufficient [where ai = okBackend and h = sampleHero
      and pa = "\<lambda>s. Inr askingAnalysis" and pp = "\<lambda>s. Inl SyntaxError"
      and t = "Some (js ''{}'')" and analysis = askingAnalysis,
      OF sampleHero_guard okBackend_analysis p i]
  have m: "messages (hero (startAnalysis okBackend (\<lambda>s. Inr askingAnalysis)
                     (\<lambda>s. Inl SyntaxError) sampleHero))
     = [userMessage (js ''tea stall''), aiMessage (js ''Where?'')]"
    using t by (simp add: askingAnalysis_def insufficientAnalysis_def sampleHero_def
        initialHero_def js_def)
  have s: "processingState (hero (startAnalysis okBackend (\<lambda>s. Inr askingAnalysis)
                     (\<lambda>s. Inl SyntaxError) sampleHero)) = Idle"
    using t by blast
  from sampleHero_guard okBackend_analysis p i m s show ?thesis by blast
qed








section \<open>Refinement\<close>

lemma sampleDashboard_guard: "trim (orElse None (chatInput sampleDashboard)) \<noteq> []"
  by (simp add: sampleDashboard_def orElse_def trim_def js_def isWhiteSpace_def)

text \<open>
  C2, as stated, fails when the response carries no text: the instruction is not empty,
  yet no assistant turn at all is appended (neither the two of a success nor the one of a
  failure); the plan is unchanged.
\<close>

theorem handleRefine_no_text_silent:
  "trim (orElse None (chatInput sampleDashboard)) \<noteq> [] \<and>
   chatHistory (fst (handleRefine (\<lambda>r. Inr None) (\<lambda>s. Inr revisedPlan) sampleDashboard None))
     = [userMessage (js ''cheaper'')] \<and>
   currentPlan (fst (handleRefine (\<lambda>r. Inr None) (\<lambda>s. Inr revisedPlan) sampleDashboard None))
     = samplePlan"
  by (simp add: handleRefine_def onRefineResponse_def Let_def sampleDashboard_def
      mountDashboard_def orElse_def trim_def js_def isWhiteSpace_def)

text \<open>
  C2, amended. For an instruction that does not trim to the empty string, \<open>handleRefine\<close>
  issues one refinement request and appends the user turn. If the response has a non-empty
  text that parses, the current plan becomes the parsed plan as a whole and exactly two
  assistant turns follow (the confirmation and the request for a rating). If the call
  throws or the non-empty text does not parse, exactly one apologetic assistant turn
  follows and the plan is unchanged. If the response has no text or an empty one, no
  assistant turn follows and the plan is unchanged.
\<close>

theorem handleRefine_outcomes:
  assumes guard: "trim (orElse manualInput (chatInput d)) \<noteq> []"
  shows "(let userMsg = orElse manualInput (chatInput d);
              r = RefinePlan (currentPlan d) (map text' (chatHistory d)) userMsg;
              d' = fst (handleRefine ai parsePlan d manualInput)
          in snd (handleRefine ai parsePlan d manualInput) = [r] \<and>
             (\<forall>s newPlan. ai r = Inr (Some s) \<and> s \<noteq> [] \<and> parsePlan s = Inr newPlan \<longrightarrow>
                currentPlan d' = newPlan \<and>
                chatHistory d' = chatHistory d @
                  [userMessage userMsg, aiMessage refineConfirmText, aiMessage refineRatingText]) \<and>
             (isl (ai r) \<or> (\<exists>s. ai r = Inr (Some s) \<and> s \<noteq> [] \<and> isl (parsePlan s)) \<longrightarrow>
                currentPlan d' = currentPlan d \<and>
                chatHistory d' = chatHistory d @
                  [userMessage userMsg, aiMessage refineFailedText]) \<and>
             (ai r = Inr None \<or> ai r = Inr (Some []) \<longrightarrow>
                currentPlan d' = currentPlan d \<and>
                chatHistory d' = chatHistory d @ [userMessage userMsg]))"
  using guard
  by (auto simp: handleRefine_def onRefineResponse_def Let_def isl_def
      split: sum.splits option.splits)

theorem handleRefine_outcomes_witness:
  "trim (orElse None (chatInput sampleDashboard)) \<noteq> [] \<and>
   okBackend (RefinePlan samplePlan [] (js ''cheaper'')) = Inr (Some (js ''{}'')) \<and>
   js ''{}'' \<noteq> [] \<and>
   currentPlan (fst (handleRefine okBackend (\<lambda>s. Inr revisedPlan) sampleDashboard None))
     = revisedPlan \<and>
   chatHistory (fst (handleRefine okBackend (\<lambda>s. Inr revisedPlan) sampleDashboard None))
     = [userMessage (js ''cheaper''), aiMessage refineConfirmText, aiMessage refineRatingText]"
proof -
  have b: "okBackend (RefinePlan samplePlan [] (js ''cheaper'')) = Inr (Some (js ''{}''))"
    by (simp add: okBackend_def sampleText_def)
  have n: "js ''{}'' \<noteq> []" by (simp add: js_def)
  have st: "currentPlan sampleDashboard = samplePlan" "chatHistory sampleDashboard = []"
    "orElse None (chatInput sampleDashboard) = js ''cheaper''"
    by (simp_all add: sampleDashboard_def mountDashboard_def Let_def orElse_def)
  note t = handleRefine_outcomes [OF sampleDashboard_guard, of okBackend "\<lambda>s. Inr revisedPlan"]
  have "currentPlan (fst (handleRefine okBackend (\<lambda>s. Inr revisedPlan) sampleDashboard None))
     = revisedPlan \<and>
   chatHistory (fst (handleRefine okBackend (\<lambda>s. Inr revisedPlan) sampleDashboard None))
     = [userMessage (js ''cheaper''), aiMessage refineConfirmText, aiMessage refineRatingText]"
    using t b n by (simp add: Let_def st)
  with sampleDashboard_guard b n show ?thesis by blast
qed

text \<open>\<open>handleRefine\<close> is its synchronous head followed by its continuation.\<close>

lemma handleRefine_split:
  "handleRefine ai parsePlan d manualInput =
     (case refineStart d manualInput of
        None \<Rightarrow> (d, [])
      | Some (d1, r) \<Rightarrow> (onRefineResponse parsePlan (ai r) d1, [r]))"
  by (simp add: handleRefine_def refineStart_def Let_def)

section \<open>Field verification\<close>

text \<open>
  Whatever the state the update is applied to, only \<open>legal_requirements\<close> of its plan is
  written; the array written is the one read when the handler started, patched at the
  index.
\<close>

lemma onVerifyResponse_frame:
  "currentPlan (onVerifyResponse parseDetail v resp prev)
     = (currentPlan prev)\<lparr>legal_requirements :=
          legal_requirements (currentPlan (onVerifyResponse parseDetail v resp prev))\<rparr>"
  by (simp add: onVerifyResponse_def Let_def split: sum.splits)

lemma onVerifyResponse_snapshot:
  "jsonParse parseDetail t = Inr updatedItem \<Longrightarrow>
   legal_requirements (currentPlan (onVerifyResponse parseDetail v (Inr t) prev))
     = (vReqs v)[vIndex v := spread (vItem v) updatedItem]"
  by (simp add: onVerifyResponse_def Let_def)

text \<open>
  A verification that runs alone, its response applied to the state its handler left:
  the entry at the index is merged shallowly with the response, the other entries and the
  other fields of the plan stay as they were.
\<close>

lemma handleVerifyLegal_alone:
  assumes inrange: "index < length (legal_requirements (currentPlan d))"
  shows "\<exists>r v. handleVerifyLegal d index = (d\<lparr>verifyingLegal := Some index\<rparr>, Some (r, v)) \<and>
     (let reqs = legal_requirements (currentPlan d);
          item = reqs ! index;
          d' = onVerifyResponse parseDetail v resp (d\<lparr>verifyingLegal := Some index\<rparr>);
          reqs' = legal_requirements (currentPlan d')
      in r = VerifyRegulatoryDetail (item (js ''name'')) (target_location (currentPlan d)) \<and>
         length reqs' = length reqs \<and>
         (\<forall>t updatedItem. resp = Inr t \<and> jsonParse parseDetail t = Inr updatedItem \<longrightarrow>
            (\<forall>k. (reqs' ! index) k
                    = (case updatedItem k of Some x \<Rightarrow> Some x | None \<Rightarrow> item k))) \<and>
         (\<forall>j. j < length reqs \<and> j \<noteq> index \<longrightarrow> reqs' ! j = reqs ! j) \<and>
         currentPlan d' = (currentPlan d)\<lparr>legal_requirements := reqs'\<rparr>)"
  using inrange
  by (auto simp: handleVerifyLegal_def onVerifyResponse_def Let_def spread_def map_add_def
      split: sum.splits option.splits)

text \<open>
  C4. Two verifications in flight at once: Verify is clicked on entry 0 and then on entry
  1, and both handlers read the same array. The response for entry 0 arrives and sets its
  cost to 120. The response for entry 1 then writes back the array its handler had read,
  patched at index 1 only: the verification of index 1 changes the entry at index 0, whose
  cost is 100 again.
\<close>

theorem concurrent_verification_loses_patch:
  "handleVerifyLegal (mountDashboard samplePlan) 0
     = (verifyingFirst,
        Some (VerifyRegulatoryDetail (Some (JStr (js ''FSSAI''))) (js ''Indiranagar, Bangalore''),
              firstVerification)) \<and>
   handleVerifyLegal verifyingFirst (Suc 0)
     = (verifyingSecond,
        Some (VerifyRegulatoryDetail (Some (JStr (js ''Trade licence'')))
                (js ''Indiranagar, Bangalore''),
              secondVerification)) \<and>
   (legal_requirements (currentPlan
      (onVerifyResponse sampleParseDetail firstVerification firstText verifyingSecond)) ! 0)
      (js ''estimated_cost'') = Some (JStr (js ''120'')) \<and>
   (legal_requirements (currentPlan
      (onVerifyResponse sampleParseDetail secondVerification sampleText
        (onVerifyResponse sampleParseDetail firstVerification firstText verifyingSecond))) ! 0)
      (js ''estimated_cost'') = Some (JStr (js ''100'')) \<and>
   (legal_requirements (currentPlan
      (onVerifyResponse sampleParseDetail secondVerification sampleText
        (onVerifyResponse sampleParseDetail firstVerification firstText verifyingSecond))) ! Suc 0)
      (js ''estimated_cost'') = Some (JStr (js ''750''))"
  by (simp add: handleVerifyLegal_def onVerifyResponse_def Let_def spread_def
      verifyingFirst_def verifyingSecond_def firstVerification_def secondVerification_def
      sampleParseDetail_def firstText_def sampleText_def firstUpdate_def sampleUpdate_def
      jsonParse_def mountDashboard_def samplePlan_def js_def)

section \<open>Sessions and resets\<close>














end
